theory Spec2Isabelle
  imports Complex_Main "HOL-Library.Char_ord" "HOL-Library.List_Lexorder" "HOL-Library.Multiset"
begin

section \<open>Go strings\<close>

text \<open>
  A Go string is modelled by the list of its runes, and a rune by a \<^typ>\<open>char\<close>: the
  model covers the runes U+0000 to U+00FF, where \<open>len([]rune(s))\<close> is the length of the
  list. The character classes below are those of Go's \<open>unicode\<close> package on that range.
  In the transport layer (section ``The MCP server'') the same type holds raw bytes.
\<close>

definition isSpace :: "char \<Rightarrow> bool" where
  "isSpace c = (c \<in> {CHR 0x09, CHR 0x0A, CHR 0x0B, CHR 0x0C, CHR 0x0D, CHR 0x20, CHR 0x85, CHR 0xA0})"

definition isDigit :: "char \<Rightarrow> bool" where
  "isDigit c = (let n = (of_char c :: nat) in 48 \<le> n \<and> n \<le> 57)"

definition isLetter :: "char \<Rightarrow> bool" where
  "isLetter c = (let n = (of_char c :: nat) in
     (65 \<le> n \<and> n \<le> 90) \<or> (97 \<le> n \<and> n \<le> 122) \<or> n = 170 \<or> n = 181 \<or> n = 186 \<or>
     (192 \<le> n \<and> n \<le> 255 \<and> n \<noteq> 215 \<and> n \<noteq> 247))"

text \<open>The upper-case letters of the range and, position by position, their lower case.\<close>

definition asciiUpper :: string where
  "asciiUpper = ''ABCDEFGHIJKLMNOPQRSTUVWXYZ''"

definition asciiLower :: string where
  "asciiLower = ''abcdefghijklmnopqrstuvwxyz''"

definition latin1Upper :: string where
  "latin1Upper =
     [CHR 0xC0, CHR 0xC1, CHR 0xC2, CHR 0xC3, CHR 0xC4, CHR 0xC5, CHR 0xC6, CHR 0xC7,
      CHR 0xC8, CHR 0xC9, CHR 0xCA, CHR 0xCB, CHR 0xCC, CHR 0xCD, CHR 0xCE, CHR 0xCF,
      CHR 0xD0, CHR 0xD1, CHR 0xD2, CHR 0xD3, CHR 0xD4, CHR 0xD5, CHR 0xD6, CHR 0xD8,
      CHR 0xD9, CHR 0xDA, CHR 0xDB, CHR 0xDC, CHR 0xDD, CHR 0xDE]"

definition latin1Lower :: string where
  "latin1Lower =
     [CHR 0xE0, CHR 0xE1, CHR 0xE2, CHR 0xE3, CHR 0xE4, CHR 0xE5, CHR 0xE6, CHR 0xE7,
      CHR 0xE8, CHR 0xE9, CHR 0xEA, CHR 0xEB, CHR 0xEC, CHR 0xED, CHR 0xEE, CHR 0xEF,
      CHR 0xF0, CHR 0xF1, CHR 0xF2, CHR 0xF3, CHR 0xF4, CHR 0xF5, CHR 0xF6, CHR 0xF8,
      CHR 0xF9, CHR 0xFA, CHR 0xFB, CHR 0xFC, CHR 0xFD, CHR 0xFE]"

definition toLower :: "char \<Rightarrow> char" where
  "toLower c =
     (case map_of (zip (asciiUpper @ latin1Upper) (asciiLower @ latin1Lower)) c of
        Some l \<Rightarrow> l
      | None \<Rightarrow> c)"

definition ToLower :: "string \<Rightarrow> string" where
  "ToLower s = map toLower s"

definition TrimSpace :: "string \<Rightarrow> string" where
  "TrimSpace s = rev (dropWhile isSpace (rev (dropWhile isSpace s)))"

text \<open>\<open>strings.Fields\<close>: the maximal runs of non-space runes, in order.\<close>

fun fieldsFrom :: "string \<Rightarrow> string \<Rightarrow> string list" where
  "fieldsFrom cur [] = (if cur = [] then [] else [cur])"
| "fieldsFrom cur (c # cs) =
     (if isSpace c then (if cur = [] then fieldsFrom [] cs else cur # fieldsFrom [] cs)
      else fieldsFrom (cur @ [c]) cs)"

definition Fields :: "string \<Rightarrow> string list" where
  "Fields s = fieldsFrom [] s"

fun Join :: "string list \<Rightarrow> string \<Rightarrow> string" where
  "Join [] sep = []"
| "Join [x] sep = x"
| "Join (x # y # ys) sep = x @ sep @ Join (y # ys) sep"

text \<open>Decimal digits: \<open>%d\<close> of a non-negative number, and zero-padded fields.\<close>

definition digitChar :: "nat \<Rightarrow> char" where
  "digitChar d = ''0123456789'' ! (d mod 10)"

fun decimal :: "nat \<Rightarrow> string" where
  "decimal n = (if n < 10 then [digitChar n] else decimal (n div 10) @ [digitChar (n mod 10)])"

declare decimal.simps [simp del]

definition padDigits :: "nat \<Rightarrow> nat \<Rightarrow> string" where
  "padDigits w n = map (\<lambda>i. digitChar ((n div 10 ^ i) mod 10)) (rev [0..<w])"

section \<open>Time\<close>

text \<open>
  A \<open>time.Time\<close> is an instant in UTC, counted in nanoseconds since 1970-01-01T00:00:00Z.
  A \<open>time.Duration\<close> is a signed 64-bit count of nanoseconds; \<open>wrap64\<close> is the
  wrap-around of Go's 64-bit \<open>int\<close>.
\<close>

type_synonym time = int

definition wrap64 :: "int \<Rightarrow> int" where
  "wrap64 x = (x + 2 ^ 63) mod 2 ^ 64 - 2 ^ 63"

definition Add :: "time \<Rightarrow> int \<Rightarrow> time" where
  "Add t d = t + d"

text \<open>\<open>t.Sub(u)\<close> saturates at the largest and smallest duration.\<close>

definition Sub :: "time \<Rightarrow> time \<Rightarrow> int" where
  "Sub t u = (let d = t - u in
     if d > 2 ^ 63 - 1 then 2 ^ 63 - 1 else if d < - (2 ^ 63) then - (2 ^ 63) else d)"

text \<open>
  The store keeps every timestamp as TEXT, written by \<open>t.UTC().Format(time.RFC3339Nano)\<close>,
  and its SQL compares and orders these texts bytewise. The layout is
  \<open>2006-01-02T15:04:05.999999999Z07:00\<close>: the fraction is printed with its trailing zeros
  removed, and not at all when the nanoseconds are zero. \<open>civil\<close> is the proleptic
  Gregorian date of a day number (days since 1970-01-01).
\<close>

definition civil :: "int \<Rightarrow> int \<times> int \<times> int" where
  "civil z0 =
     (let z = z0 + 719468;
          era = z div 146097;
          doe = z mod 146097;
          yoe = (doe - doe div 1460 + doe div 36524 - doe div 146096) div 365;
          y = yoe + era * 400;
          doy = doe - (365 * yoe + yoe div 4 - yoe div 100);
          mp = (5 * doy + 2) div 153;
          d = doy - (153 * mp + 2) div 5 + 1;
          m = (if mp < 10 then mp + 3 else mp - 9)
      in (if m \<le> 2 then y + 1 else y, m, d))"

definition fmtYear :: "int \<Rightarrow> string" where
  "fmtYear y =
     (let n = nat \<bar>y\<bar>; ds = (if n < 10000 then padDigits 4 n else decimal n)
      in if y < 0 then CHR ''-'' # ds else ds)"

definition fmtFraction :: "nat \<Rightarrow> string" where
  "fmtFraction ns =
     (if ns = 0 then []
      else CHR ''.'' # rev (dropWhile (\<lambda>c. c = CHR ''0'') (rev (padDigits 9 ns))))"

definition RFC3339Nano :: "time \<Rightarrow> string" where
  "RFC3339Nano t =
     (let secs = t div 1000000000;
          ns = nat (t mod 1000000000);
          days = secs div 86400;
          sod = nat (secs mod 86400)
      in case civil days of (y, m, d) \<Rightarrow>
           fmtYear y @ ''-'' @ padDigits 2 (nat m) @ ''-'' @ padDigits 2 (nat d) @ ''T'' @
           padDigits 2 (sod div 3600) @ '':'' @ padDigits 2 (sod mod 3600 div 60) @ '':'' @
           padDigits 2 (sod mod 60) @ fmtFraction ns @ ''Z'')"

section \<open>Data model\<close>

text \<open>A decoded JSON value, as \<open>encoding/json\<close> hands it to the program.\<close>

datatype json =
    JNull
  | JBool bool
  | JNumber real
  | JString string
  | JArray "json list"
  | JObject "(string \<times> json) list"

text \<open>\<open>types.MemoryRecord\<close>; a nil pointer or map is \<open>None\<close>.\<close>

record MemoryRecord =
  ID :: string
  Namespace :: string
  Scope :: string
  Content :: string
  Summary :: string
  Importance :: int
  SourceAgent :: string
  Metadata :: "(string \<times> json) list option"
  CreatedAt :: time
  LastAccessedAt :: time
  ExpiresAt :: "time option"
  PromotedAt :: "time option"

record WriteInput =
  wi_Namespace :: string
  wi_Scope :: string
  wi_Content :: string
  wi_Summary :: string
  wi_Importance :: int
  wi_SourceAgent :: string
  wi_TTLSeconds :: int
  wi_Metadata :: "(string \<times> json) list option"

record SearchInput =
  si_Namespace :: string
  si_Query :: string
  si_Scope :: string
  si_K :: int
  si_IncludeMetadata :: bool

record SearchResult =
  Record :: MemoryRecord
  Score :: real
  LexicalScore :: real
  RecencyScore :: real
  ImportanceScore :: real

record ContextPackInput =
  cp_Namespace :: string
  cp_Query :: string
  cp_TokenBudget :: int
  cp_Scope :: string
  cp_K :: int

record ContextPack =
  Text :: string
  EstimatedTokens :: int
  MemoryIDs :: "string list"

record PromoteInput =
  pi_MemoryID :: string
  pi_TargetScope :: string
  pi_Reason :: string

text \<open>\<open>store.Candidate\<close>.\<close>

record Candidate =
  cRecord :: MemoryRecord
  cLexicalScore :: real

text \<open>
  The errors of the service and the store, one constructor per \<open>errors.New\<close> or
  \<open>fmt.Errorf\<close> of the source; \<open>SliceBoundsPanic\<close> is the run-time panic of a slice
  expression out of range.
\<close>

datatype error =
    NamespaceRequired
  | NamespaceMismatch string
  | InvalidScope string
  | ContentEmpty
  | MemoryIDRequired
  | TargetScopeUnsupported
  | MemoryNotFound string
  | ErrNoRows
  | StorageFailure string
  | SliceBoundsPanic

section \<open>The SQLite store\<close>

text \<open>
  The table \<open>memories\<close> is the list of its rows in insertion order. The time columns hold
  the instants themselves; every SQL comparison on them is made on their RFC3339Nano texts,
  as the statements of the source do (\<open>time.Parse\<close> reads a written text back to the same
  instant). \<open>dbError\<close> is \<open>Some msg\<close> while the engine rejects every statement. The FTS5
  index is outside the repository: \<open>fts_engine\<close> is its answer to a MATCH expression,
  the ids of the matching index rows with their bm25 rank, or a failure.
\<close>

record SQLiteStore =
  rows :: "MemoryRecord list"
  ftsEnabled :: bool
  dbError :: "string option"

type_synonym fts_engine = "string \<Rightarrow> string + (string \<times> real) list"

text \<open>\<open>ORDER BY key DESC\<close> and \<open>sort.SliceStable\<close> with \<open>less i j = key i > key j\<close>: a stable
  sort into descending order. SQLite leaves the order of rows with equal keys open; the
  model keeps table order there.\<close>

fun insertDesc :: "('a \<Rightarrow> 'k::linorder) \<Rightarrow> 'a \<Rightarrow> 'a list \<Rightarrow> 'a list" where
  "insertDesc f x [] = [x]"
| "insertDesc f x (y # ys) = (if f y \<le> f x then x # y # ys else y # insertDesc f x ys)"

fun sortDesc :: "('a \<Rightarrow> 'k::linorder) \<Rightarrow> 'a list \<Rightarrow> 'a list" where
  "sortDesc f [] = []"
| "sortDesc f (x # xs) = insertDesc f x (sortDesc f xs)"

text \<open>\<open>LIMIT n\<close>: a negative limit is no limit.\<close>

definition sqlLimit :: "int \<Rightarrow> 'a list \<Rightarrow> 'a list" where
  "sqlLimit n xs = (if n < 0 then xs else take (nat n) xs)"

text \<open>
  SQLite's \<open>LIKE\<close> without \<open>ESCAPE\<close>: \<open>%\<close> in the pattern matches any run of
  characters, \<open>_\<close> any one character, and every other character matches itself, upper and
  lower case of the ASCII letters alike.
\<close>

definition asciiFold :: "char \<Rightarrow> char" where
  "asciiFold c = (case map_of (zip asciiUpper asciiLower) c of Some l \<Rightarrow> l | None \<Rightarrow> c)"

fun sqlLike :: "string \<Rightarrow> string \<Rightarrow> bool" where
  "sqlLike [] t = (t = [])"
| "sqlLike (p # ps) t =
     (if p = CHR ''%'' then
        (sqlLike ps t \<or> (case t of [] \<Rightarrow> False | c # t' \<Rightarrow> sqlLike (p # ps) t'))
      else (case t of [] \<Rightarrow> False
            | c # t' \<Rightarrow> (p = CHR ''_'' \<or> asciiFold p = asciiFold c) \<and> sqlLike ps t'))"

definition expiresAfter :: "MemoryRecord \<Rightarrow> time \<Rightarrow> bool" where
  \<comment> \<open>\<open>expires_at IS NULL OR expires_at > ?\<close>\<close>
  "expiresAfter m now =
     (case ExpiresAt m of None \<Rightarrow> True | Some e \<Rightarrow> RFC3339Nano now < RFC3339Nano e)"

definition InsertMemory :: "SQLiteStore \<Rightarrow> MemoryRecord \<Rightarrow> error + MemoryRecord \<times> SQLiteStore" where
  "InsertMemory st rec =
     (case dbError st of
        Some msg \<Rightarrow> Inl (StorageFailure msg)
      | None \<Rightarrow>
          if ID rec \<in> set (map ID (rows st)) \<or> (Scope rec \<noteq> ''short'' \<and> Scope rec \<noteq> ''long'')
          then Inl (StorageFailure ''insert memory: constraint failed'')
          else Inr (rec, st\<lparr>rows := rows st @
                 [rec\<lparr>Metadata := Some (case Metadata rec of None \<Rightarrow> [] | Some m \<Rightarrow> m)\<rparr>]\<rparr>))"

definition tokenFlush :: "string \<Rightarrow> string set \<times> string list \<Rightarrow> string set \<times> string list" where
  "tokenFlush sb acc =
     (case acc of (seen, terms) \<Rightarrow>
        if sb = [] then (seen, terms)
        else if sb \<in> seen then (seen, terms)
        else (insert sb seen, terms @ [sb]))"

fun tokenizeLoop :: "string \<Rightarrow> string \<Rightarrow> string set \<times> string list \<Rightarrow> string list" where
  "tokenizeLoop [] sb acc = snd (tokenFlush sb acc)"
| "tokenizeLoop (r # rs) sb acc =
     (if isLetter r \<or> isDigit r then tokenizeLoop rs (sb @ [toLower r]) acc
      else tokenizeLoop rs [] (tokenFlush sb acc))"

definition tokenizeQueryTerms :: "string \<Rightarrow> string list" where
  "tokenizeQueryTerms query =
     (let q = TrimSpace query in if q = [] then [] else tokenizeLoop q [] ({}, []))"

definition quoteTerm :: "string \<Rightarrow> string" where
  "quoteTerm term = ''\"'' @ concat (map (\<lambda>c. if c = CHR ''\"'' then ''\"\"'' else [c]) term) @ ''\"''"

definition buildFTSMatchQuery :: "string list \<Rightarrow> string" where
  "buildFTSMatchQuery terms = (if terms = [] then [] else Join (map quoteTerm terms) '' AND '')"

definition searchFTS ::
  "fts_engine \<Rightarrow> SQLiteStore \<Rightarrow> string \<Rightarrow> string \<Rightarrow> string \<Rightarrow> int \<Rightarrow> time \<Rightarrow> error + Candidate list" where
  "searchFTS eng st namespace query scope limit now =
     (case dbError st of
        Some msg \<Rightarrow> Inl (StorageFailure msg)
      | None \<Rightarrow>
          (case eng query of
             Inl msg \<Rightarrow> Inl (StorageFailure msg)
           | Inr hits \<Rightarrow>
               let joined = concat (map (\<lambda>(i, bm). map (\<lambda>m. (m, bm)) (filter (\<lambda>m. ID m = i) (rows st))) hits);
                   kept = filter (\<lambda>(m, bm). Namespace m = namespace \<and> expiresAfter m now \<and>
                                   (scope = [] \<or> Scope m = scope)) joined;
                   ordered = sort_key snd kept
               in Inr (map (\<lambda>(m, bm). \<lparr>cRecord = m, cLexicalScore = 1 / (1 + \<bar>bm\<bar>)\<rparr>)
                        (sqlLimit limit ordered))))"

definition likeEither :: "string \<Rightarrow> MemoryRecord \<Rightarrow> bool" where
  \<comment> \<open>\<open>(content LIKE ? OR summary LIKE ?)\<close> with the needle \<open>"%" + s + "%"\<close>\<close>
  "likeEither s m =
     (sqlLike (''%'' @ s @ ''%'') (Content m) \<or> sqlLike (''%'' @ s @ ''%'') (Summary m))"

definition likeWhere ::
  "string \<Rightarrow> string \<Rightarrow> string list \<Rightarrow> string \<Rightarrow> time \<Rightarrow> MemoryRecord \<Rightarrow> bool" where
  "likeWhere namespace query terms scope now m =
     (Namespace m = namespace \<and> expiresAfter m now \<and> (scope = [] \<or> Scope m = scope) \<and>
      (if terms \<noteq> [] then list_all (\<lambda>term. likeEither term m) terms
       else if query \<noteq> [] then likeEither query m
       else True))"

definition searchLIKE ::
  "SQLiteStore \<Rightarrow> string \<Rightarrow> string \<Rightarrow> string list \<Rightarrow> string \<Rightarrow> int \<Rightarrow> time \<Rightarrow> error + Candidate list" where
  "searchLIKE st namespace query terms scope limit now =
     (case dbError st of
        Some msg \<Rightarrow> Inl (StorageFailure msg)
      | None \<Rightarrow>
          Inr (map (\<lambda>m. \<lparr>cRecord = m, cLexicalScore = (if query = [] then 0.25 else 0.4)\<rparr>)
                 (sqlLimit limit
                    (sortDesc (\<lambda>m. RFC3339Nano (CreatedAt m))
                       (filter (likeWhere namespace query terms scope now) (rows st))))))"

definition SearchCandidates ::
  "fts_engine \<Rightarrow> SQLiteStore \<Rightarrow> string \<Rightarrow> string \<Rightarrow> string \<Rightarrow> int \<Rightarrow> time \<Rightarrow> error + Candidate list" where
  "SearchCandidates eng st namespace query0 scope limit0 now =
     (let limit = (if limit0 \<le> 0 then 10 else limit0);
          query = TrimSpace query0;
          terms = tokenizeQueryTerms query
      in if terms \<noteq> [] \<and> ftsEnabled st then
           (case searchFTS eng st namespace (buildFTSMatchQuery terms) scope limit now of
              Inr found \<Rightarrow>
                if found \<noteq> [] then Inr found
                else searchLIKE st namespace query terms scope limit now
            | Inl err \<Rightarrow> searchLIKE st namespace query terms scope limit now)
         else searchLIKE st namespace query terms scope limit now)"

definition Promote_store :: "SQLiteStore \<Rightarrow> string \<Rightarrow> time \<Rightarrow> error + SQLiteStore" where
  \<comment> \<open>\<open>SQLiteStore.Promote\<close>\<close>
  "Promote_store st i now =
     (case dbError st of
        Some msg \<Rightarrow> Inl (StorageFailure msg)
      | None \<Rightarrow>
          if filter (\<lambda>m. ID m = i) (rows st) = [] then Inl ErrNoRows
          else Inr (st\<lparr>rows := map (\<lambda>m. if ID m = i
                      then m\<lparr>Scope := ''long'', ExpiresAt := None, PromotedAt := Some now,
                             LastAccessedAt := now\<rparr>
                      else m) (rows st)\<rparr>))"

definition expiredShort :: "time \<Rightarrow> MemoryRecord \<Rightarrow> bool" where
  \<comment> \<open>\<open>scope = 'short' AND expires_at IS NOT NULL AND expires_at <= ?\<close>\<close>
  "expiredShort now m =
     (Scope m = ''short'' \<and>
      (case ExpiresAt m of None \<Rightarrow> False | Some e \<Rightarrow> RFC3339Nano e \<le> RFC3339Nano now))"

definition ExpireShort_store :: "SQLiteStore \<Rightarrow> time \<Rightarrow> error + int \<times> SQLiteStore" where
  \<comment> \<open>\<open>SQLiteStore.ExpireShort\<close>\<close>
  "ExpireShort_store st now =
     (case dbError st of
        Some msg \<Rightarrow> Inl (StorageFailure msg)
      | None \<Rightarrow>
          Inr (int (length (filter (expiredShort now) (rows st))),
               st\<lparr>rows := filter (\<lambda>m. \<not> expiredShort now m) (rows st)\<rparr>))"

definition GetMemory :: "SQLiteStore \<Rightarrow> string \<Rightarrow> error + MemoryRecord" where
  "GetMemory st i =
     (case dbError st of
        Some msg \<Rightarrow> Inl (StorageFailure msg)
      | None \<Rightarrow> (case filter (\<lambda>m. ID m = i) (rows st) of [] \<Rightarrow> Inl ErrNoRows | m # _ \<Rightarrow> Inr m))"

section \<open>The memory service\<close>

text \<open>
  \<open>namespaceExpr\<close> is \<open>MatchString\<close> of the compiled \<open>NamespacePattern\<close>. The clock reading
  \<open>time.Now().UTC()\<close> and the fresh \<open>uuid.NewString()\<close> of an operation are arguments of
  its model. Scores are \<open>float64\<close> in the source and real numbers here: rounding is not
  modelled.
\<close>

record Config =
  NamespacePattern :: string
  DefaultShortTTLHours :: int
  MaxContextPackItems :: int
  DefaultSearchK :: int

record Service =
  cfg :: Config
  namespaceExpr :: "string \<Rightarrow> bool"

definition validateNamespace :: "Service \<Rightarrow> string \<Rightarrow> error option" where
  "validateNamespace svc namespace0 =
     (let namespace = TrimSpace namespace0
      in if namespace = [] then Some NamespaceRequired
         else if \<not> namespaceExpr svc namespace then Some (NamespaceMismatch namespace)
         else None)"

definition truncate_str :: "string \<Rightarrow> nat \<Rightarrow> string" where
  "truncate_str s limit =
     (if length s \<le> limit then s
      else if limit < 3 then take limit s
      else take (limit - 3) s @ ''...'')"

definition autoSummary :: "string \<Rightarrow> string" where
  "autoSummary content0 =
     (let content = TrimSpace content0 in if content = [] then [] else truncate_str content 160)"

definition normalize_text :: "string \<Rightarrow> string" where
  "normalize_text s = truncate_str (Join (Fields (ToLower (TrimSpace s))) '' '') 180"

definition recencyScore :: "time \<Rightarrow> time \<Rightarrow> real" where
  "recencyScore now t =
     (let days = real_of_int (Sub now t) / 3600000000000 / 24
      in if days \<le> 0 then 1 else exp (- days / 14))"

definition estimateTokens :: "string \<Rightarrow> int" where
  "estimateTokens s = (let t = \<lceil>real (length s) / 4\<rceil> in if t < 1 then 1 else t)"

definition Write ::
  "Service \<Rightarrow> SQLiteStore \<Rightarrow> time \<Rightarrow> string \<Rightarrow> WriteInput \<Rightarrow> error + MemoryRecord \<times> SQLiteStore" where
  "Write svc st now uuid inp =
     (case validateNamespace svc (wi_Namespace inp) of
        Some e \<Rightarrow> Inl e
      | None \<Rightarrow>
          let scope0 = TrimSpace (ToLower (wi_Scope inp));
              scope = (if scope0 = [] then ''short'' else scope0)
          in if scope \<noteq> ''short'' \<and> scope \<noteq> ''long'' then Inl (InvalidScope scope)
             else if TrimSpace (wi_Content inp) = [] then Inl ContentEmpty
             else
               let importance = (if wi_Importance inp < 1 \<or> wi_Importance inp > 5 then 3
                                 else wi_Importance inp);
                   summary0 = TrimSpace (wi_Summary inp);
                   summary = (if summary0 = [] then autoSummary (wi_Content inp) else summary0);
                   expiresAt =
                     (if scope = ''short'' then
                        let ttlSeconds = (if wi_TTLSeconds inp \<le> 0
                                          then wrap64 (DefaultShortTTLHours (cfg svc) * 3600)
                                          else wi_TTLSeconds inp)
                        in Some (Add now (wrap64 (ttlSeconds * 1000000000)))
                      else None)
               in InsertMemory st
                    \<lparr>ID = uuid, Namespace = wi_Namespace inp, Scope = scope,
                     Content = wi_Content inp, Summary = summary, Importance = importance,
                     SourceAgent = wi_SourceAgent inp, Metadata = wi_Metadata inp,
                     CreatedAt = now, LastAccessedAt = now, ExpiresAt = expiresAt,
                     PromotedAt = None\<rparr>)"

definition scoreCandidate :: "time \<Rightarrow> Candidate \<Rightarrow> SearchResult" where
  \<comment> \<open>the body of the loop over \<open>cands\<close> in \<open>Search\<close>\<close>
  "scoreCandidate now c =
     (let recency = recencyScore now (CreatedAt (cRecord c));
          importance = real_of_int (Importance (cRecord c)) / 5.0;
          score = (0.60 * cLexicalScore c) + (0.25 * recency) + (0.15 * importance)
      in \<lparr>Record = cRecord c, Score = score, LexicalScore = cLexicalScore c,
          RecencyScore = recency, ImportanceScore = importance\<rparr>)"

definition effectiveK :: "Service \<Rightarrow> int \<Rightarrow> int" where
  \<comment> \<open>the two \<open>if\<close>s on \<open>in.K\<close> at the head of \<open>Search\<close>\<close>
  "effectiveK svc k0 =
     (let k = (if k0 \<le> 0 then DefaultSearchK (cfg svc) else k0) in if k > 100 then 100 else k)"

definition stripMetadata :: "bool \<Rightarrow> SearchResult list \<Rightarrow> SearchResult list" where
  "stripMetadata includeMetadata results =
     (if \<not> includeMetadata then map (\<lambda>r. r\<lparr>Record := (Record r)\<lparr>Metadata := None\<rparr>\<rparr>) results
      else results)"

definition Search ::
  "Service \<Rightarrow> fts_engine \<Rightarrow> SQLiteStore \<Rightarrow> time \<Rightarrow> SearchInput \<Rightarrow> error + SearchResult list" where
  "Search svc eng st now inp =
     (case validateNamespace svc (si_Namespace inp) of
        Some e \<Rightarrow> Inl e
      | None \<Rightarrow>
          let scope = TrimSpace (ToLower (si_Scope inp))
          in if scope \<noteq> [] \<and> scope \<noteq> ''short'' \<and> scope \<noteq> ''long'' then Inl (InvalidScope scope)
             else
               let k = effectiveK svc (si_K inp)
               in case SearchCandidates eng st (si_Namespace inp) (si_Query inp) scope
                         (wrap64 (k * 3)) now of
                    Inl e \<Rightarrow> Inl e
                  | Inr cands \<Rightarrow>
                      let results = sortDesc Score (map (scoreCandidate now) cands)
                      in if int (length results) > k then
                           (if k < 0 then Inl SliceBoundsPanic
                            else Inr (stripMetadata (si_IncludeMetadata inp) (take (nat k) results)))
                         else Inr (stripMetadata (si_IncludeMetadata inp) results))"

text \<open>The loop of \<open>ContextPack\<close> over the ranked results; \<open>break\<close> returns what was
  gathered so far.\<close>

definition displayText :: "SearchResult \<Rightarrow> string" where
  "displayText r =
     (let text = TrimSpace (Summary (Record r))
      in if text = [] then TrimSpace (Content (Record r)) else text)"

definition packLine :: "SearchResult \<Rightarrow> string" where
  \<comment> \<open>\<open>fmt.Sprintf("- [%s] %s", r.Record.ID, truncate(text, 300))\<close>\<close>
  "packLine r = ''- ['' @ ID (Record r) @ ''] '' @ truncate_str (displayText r) 300"

fun packLoop ::
  "int \<Rightarrow> SearchResult list \<Rightarrow> string set \<Rightarrow> string list \<Rightarrow> string list \<Rightarrow> int \<Rightarrow>
   string list \<times> string list \<times> int" where
  "packLoop budget [] seen lines ids tokens = (lines, ids, tokens)"
| "packLoop budget (r # rs) seen lines ids tokens =
     (let text = displayText r
      in if text = [] then packLoop budget rs seen lines ids tokens
         else
           let norm = normalize_text text
           in if norm \<in> seen then packLoop budget rs seen lines ids tokens
              else
                let line = packLine r;
                    lineTokens = estimateTokens line
                in if tokens + lineTokens > budget then (lines, ids, tokens)
                   else packLoop budget rs (insert norm seen) (lines @ [line])
                          (ids @ [ID (Record r)]) (tokens + lineTokens))"

definition effectiveBudget :: "int \<Rightarrow> int" where
  "effectiveBudget b = (if b \<le> 0 then 512 else b)"

definition ContextPack ::
  "Service \<Rightarrow> fts_engine \<Rightarrow> SQLiteStore \<Rightarrow> time \<Rightarrow> ContextPackInput \<Rightarrow> error + ContextPack" where
  "ContextPack svc eng st now inp =
     (let budget = effectiveBudget (cp_TokenBudget inp);
          k0 = (if cp_K inp \<le> 0 then MaxContextPackItems (cfg svc) else cp_K inp);
          k = (if k0 > 50 then 50 else k0)
      in case Search svc eng st now
                \<lparr>si_Namespace = cp_Namespace inp, si_Query = cp_Query inp,
                 si_Scope = cp_Scope inp, si_K = k, si_IncludeMetadata = False\<rparr> of
           Inl e \<Rightarrow> Inl e
         | Inr results \<Rightarrow>
             (case packLoop budget results {} [] [] 0 of
                (lines, ids, tokens) \<Rightarrow>
                  Inr \<lparr>Text = Join lines [CHR 0x0A], EstimatedTokens = tokens, MemoryIDs = ids\<rparr>))"

definition Promote ::
  "SQLiteStore \<Rightarrow> time \<Rightarrow> PromoteInput \<Rightarrow> error + MemoryRecord \<times> SQLiteStore" where
  \<comment> \<open>\<open>Service.Promote\<close>\<close>
  "Promote st now inp =
     (if TrimSpace (pi_MemoryID inp) = [] then Inl MemoryIDRequired
      else
        let target = (if pi_TargetScope inp = [] then ''long'' else pi_TargetScope inp)
        in if target \<noteq> ''long'' then Inl TargetScopeUnsupported
           else
             (case Promote_store st (pi_MemoryID inp) now of
                Inl e \<Rightarrow> if e = ErrNoRows then Inl (MemoryNotFound (pi_MemoryID inp)) else Inl e
              | Inr st' \<Rightarrow>
                  (case GetMemory st' (pi_MemoryID inp) of
                     Inl e \<Rightarrow> Inl e
                   | Inr m \<Rightarrow> Inr (m, st'))))"

definition ExpireShort :: "SQLiteStore \<Rightarrow> time \<Rightarrow> error + int \<times> SQLiteStore" where
  \<comment> \<open>\<open>Service.ExpireShort\<close>\<close>
  "ExpireShort st now = ExpireShort_store st now"

section \<open>The MCP server\<close>

text \<open>
  The transport reads and writes bytes: in this section a \<^typ>\<open>string\<close> read from or
  written to the stream is a byte sequence. \<open>encoding/json\<close> is outside the repository:
  its decoding and encoding of an envelope are the fields \<open>unmarshalRequest\<close> and
  \<open>marshalResponse\<close> of \<open>env\<close>. The four cases of the switch in \<open>handleToolCall\<close> decode
  the arguments and call the service; \<open>runTool\<close> stands for them: it returns the
  \<open>err.Error()\<close> of a failure or the value the service returned.
\<close>

datatype wireMode = wireModeFramed | wireModeJSONLine

datatype readError = EOF | ErrUnexpectedEOF | InvalidContentLength | MissingContentLength

text \<open>The dynamically typed values (\<open>interface{}\<close>) the server builds; \<open>AValue\<close> is any
  other Go value, given by its JSON.\<close>

datatype any_value =
    ANil
  | ABool bool
  | AString string
  | AMap "(string \<times> any_value) list"
  | AMapSlice "(string \<times> any_value) list list"
  | AToolDefs "string list"
  | AValue json

record request =
  req_JSONRPC :: string
  req_ID :: "json option"
  req_Method :: string
  req_Params :: "json option"

record rpcError =
  Code :: int
  Message :: string
  Data :: any_value

record response =
  resp_JSONRPC :: string
  resp_ID :: any_value
  resp_Result :: any_value
  resp_Error :: "rpcError option"

text \<open>\<open>store.MCPRequestLog\<close> without its clock readings (\<open>DurationMS\<close>, \<open>CreatedAt\<close>).\<close>

record MCPRequestLog =
  Method :: string
  ToolName :: string
  Success :: bool
  ErrorText :: string

record 's env =
  unmarshalRequest :: "string \<Rightarrow> string + request"
  marshalResponse :: "response \<Rightarrow> string"
  runTool :: "string \<Rightarrow> 's \<Rightarrow> json option \<Rightarrow> (string + json) \<times> 's"
  marshalIndent :: "json \<Rightarrow> string option"

text \<open>\<open>sink\<close> is \<open>None\<close> for a nil sink, and otherwise the records handed to
  \<open>InsertMCPRequestLog\<close> so far.\<close>

record 's Server =
  srv_svc :: 's
  sink :: "MCPRequestLog list option"
  requests :: nat
  errors :: nat

definition jsonRPCVersion :: string where
  "jsonRPCVersion = ''2.0''"

definition emptyResponse :: response where
  \<comment> \<open>\<open>response{}\<close>\<close>
  "emptyResponse = \<lparr>resp_JSONRPC = [], resp_ID = ANil, resp_Result = ANil, resp_Error = None\<rparr>"

definition errorResponse :: "any_value \<Rightarrow> int \<Rightarrow> string \<Rightarrow> any_value \<Rightarrow> response" where
  "errorResponse i code msg data =
     \<lparr>resp_JSONRPC = jsonRPCVersion, resp_ID = i, resp_Result = ANil,
      resp_Error = Some \<lparr>Code = code, Message = msg, Data = data\<rparr>\<rparr>"

definition decodeID :: "json option \<Rightarrow> any_value" where
  "decodeID raw = (case raw of None \<Rightarrow> ANil | Some JNull \<Rightarrow> ANil | Some j \<Rightarrow> AValue j)"

text \<open>
  \<open>json.Unmarshal(raw, &p)\<close> for a struct \<open>p\<close> with a string field named \<open>fld\<close>: the
  members of an object are taken in order, a member whose key equals the field name up to
  case sets the field when it is a string, leaves it when it is \<open>null\<close>, and is a type
  error otherwise; decoding goes on after a type error. The result is
  (\<open>err != nil\<close>, the field). An absent (empty) raw message and a value that is no object
  are errors.
\<close>

fun decodeStringMember :: "string \<Rightarrow> (string \<times> json) list \<Rightarrow> bool \<times> string \<Rightarrow> bool \<times> string" where
  "decodeStringMember fld [] acc = acc"
| "decodeStringMember fld ((k, v) # kvs) (bad, cur) =
     (if map asciiFold k = map asciiFold fld then
        (case v of
           JString s \<Rightarrow> decodeStringMember fld kvs (bad, s)
         | JNull \<Rightarrow> decodeStringMember fld kvs (bad, cur)
         | _ \<Rightarrow> decodeStringMember fld kvs (True, cur))
      else decodeStringMember fld kvs (bad, cur))"

definition unmarshalStringField :: "string \<Rightarrow> json option \<Rightarrow> bool \<times> string" where
  "unmarshalStringField fld raw =
     (case raw of
        None \<Rightarrow> (True, [])
      | Some JNull \<Rightarrow> (False, [])
      | Some (JObject kvs) \<Rightarrow> decodeStringMember fld kvs (False, [])
      | Some _ \<Rightarrow> (True, []))"

definition unmarshalRawField :: "string \<Rightarrow> json option \<Rightarrow> json option" where
  \<comment> \<open>the \<open>json.RawMessage\<close> field \<open>fld\<close> of the same struct: the last member of that name\<close>
  "unmarshalRawField fld raw =
     (case raw of
        Some (JObject kvs) \<Rightarrow>
          (case filter (\<lambda>(k, v). map asciiFold k = map asciiFold fld) kvs of
             [] \<Rightarrow> None
           | m # ms \<Rightarrow> Some (snd (last (m # ms))))
      | _ \<Rightarrow> None)"

definition toolDefinitions :: "string list" where
  \<comment> \<open>the names of the catalogue; descriptions and schemas are left out\<close>
  "toolDefinitions = [''memory_write'', ''memory_search'', ''memory_get_context_pack'', ''memory_promote'']"

definition toolSuccess :: "'s env \<Rightarrow> json \<Rightarrow> string + (string \<times> any_value) list" where
  "toolSuccess env v =
     (case marshalIndent env v of
        None \<Rightarrow> Inl ''json: unsupported value''
      | Some b \<Rightarrow>
          Inr [(''content'', AMapSlice [[(''type'', AString ''text''), (''text'', AString b)]]),
               (''structuredContent'', AValue v),
               (''isError'', ABool False)])"

definition handleToolCall ::
  "'s env \<Rightarrow> 's \<Rightarrow> json option \<Rightarrow> (string + (string \<times> any_value) list) \<times> 's" where
  "handleToolCall env s params =
     (case unmarshalStringField ''name'' params of
        (True, name) \<Rightarrow> (Inl ''invalid tools/call params'', s)
      | (False, name) \<Rightarrow>
          if name \<in> set toolDefinitions then
            (case runTool env name s (unmarshalRawField ''arguments'' params) of
               (Inl err, s') \<Rightarrow> (Inl err, s')
             | (Inr v, s') \<Rightarrow> (toolSuccess env v, s'))
          else (Inl (''unknown tool \"'' @ name @ ''\"''), s))"

definition handle :: "'s env \<Rightarrow> 's Server \<Rightarrow> request \<Rightarrow> response \<times> bool \<times> 's Server" where
  "handle env srv0 req =
     (let srv = srv0\<lparr>requests := requests srv0 + 1\<rparr>;
          hasID = (req_ID req \<noteq> None);
          i = decodeID (req_ID req)
      in if req_Method req = ''notifications/initialized'' then (emptyResponse, False, srv)
         else if req_Method req = ''initialize'' then
           let pv0 = snd (unmarshalStringField ''protocolVersion'' (req_Params req));
               pv = (if TrimSpace pv0 = [] then ''2024-11-05'' else pv0)
           in (\<lparr>resp_JSONRPC = jsonRPCVersion, resp_ID = i,
                resp_Result = AMap
                  [(''protocolVersion'', AString pv),
                   (''capabilities'', AMap [(''tools'', AMap [(''listChanged'', ABool False)])]),
                   (''serverInfo'', AMap [(''name'', AString ''memory-mcp''),
                                          (''version'', AString ''0.1.0'')])],
                resp_Error = None\<rparr>, hasID, srv)
         else if req_Method req = ''ping'' then
           (\<lparr>resp_JSONRPC = jsonRPCVersion, resp_ID = i, resp_Result = AMap [],
             resp_Error = None\<rparr>, hasID, srv)
         else if req_Method req = ''tools/list'' then
           (\<lparr>resp_JSONRPC = jsonRPCVersion, resp_ID = i,
             resp_Result = AMap [(''tools'', AToolDefs toolDefinitions)],
             resp_Error = None\<rparr>, hasID, srv)
         else if req_Method req = ''tools/call'' then
           (case handleToolCall env (srv_svc srv) (req_Params req) of
              (Inl err, s') \<Rightarrow>
                (\<lparr>resp_JSONRPC = jsonRPCVersion, resp_ID = i,
                  resp_Result = AMap
                    [(''content'', AMapSlice [[(''type'', AString ''text''), (''text'', AString err)]]),
                     (''isError'', ABool True)],
                  resp_Error = None\<rparr>, hasID, srv\<lparr>srv_svc := s', errors := errors srv + 1\<rparr>)
            | (Inr res, s') \<Rightarrow>
                (\<lparr>resp_JSONRPC = jsonRPCVersion, resp_ID = i, resp_Result = AMap res,
                  resp_Error = None\<rparr>, hasID, srv\<lparr>srv_svc := s'\<rparr>))
         else if \<not> hasID then (emptyResponse, False, srv)
         else (errorResponse i (- 32601) ''method not found'' (AString (req_Method req)), True, srv))"

definition toolNameFromParams :: "string \<Rightarrow> json option \<Rightarrow> string" where
  "toolNameFromParams method params =
     (if method \<noteq> ''tools/call'' \<or> params = None then []
      else case unmarshalStringField ''name'' params of
             (True, name) \<Rightarrow> []
           | (False, name) \<Rightarrow> TrimSpace name)"

definition responseSuccessful :: "response \<Rightarrow> bool" where
  "responseSuccessful resp =
     (if resp_Error resp \<noteq> None then False
      else case resp_Result resp of
             AMap result \<Rightarrow>
               (case map_of result ''isError'' of
                  Some (ABool isError) \<Rightarrow> \<not> isError
                | _ \<Rightarrow> True)
           | _ \<Rightarrow> True)"

definition responseErrorText :: "response \<Rightarrow> string" where
  "responseErrorText resp =
     (case resp_Error resp of
        Some e \<Rightarrow> TrimSpace (Message e)
      | None \<Rightarrow>
          (case resp_Result resp of
             AMap result \<Rightarrow>
               (case map_of result ''isError'' of
                  Some (ABool True) \<Rightarrow>
                    (case map_of result ''content'' of
                       Some (AMapSlice (first # others)) \<Rightarrow>
                         let text = TrimSpace (case map_of first ''text'' of Some (AString t) \<Rightarrow> t | _ \<Rightarrow> [])
                         in if text = [] then ''tool call failed'' else text
                     | _ \<Rightarrow> ''tool call failed'')
                | _ \<Rightarrow> [])
           | _ \<Rightarrow> []))"

definition requestLog :: "request \<Rightarrow> response \<Rightarrow> MCPRequestLog" where
  \<comment> \<open>the record \<open>recordRequest\<close> builds\<close>
  "requestLog req resp =
     (let rec = \<lparr>Method = TrimSpace (req_Method req),
                 ToolName = toolNameFromParams (req_Method req) (req_Params req),
                 Success = responseSuccessful resp,
                 ErrorText = responseErrorText resp\<rparr>
      in if TrimSpace (Method rec) = [] then rec\<lparr>Method := ''unknown''\<rparr> else rec)"

definition recordRequest :: "'s Server \<Rightarrow> request \<Rightarrow> response \<Rightarrow> 's Server" where
  "recordRequest srv req resp =
     (case sink srv of
        None \<Rightarrow> srv
      | Some recs \<Rightarrow> srv\<lparr>sink := Some (recs @ [requestLog req resp])\<rparr>)"

text \<open>
  \<open>bytes.TrimSpace\<close> and \<open>strings.TrimSpace\<close> on bytes remove the white-space runes at both
  ends as UTF-8 encodes them; \<open>spaceEncodings\<close> lists the encodings of the runes of
  \<open>unicode.IsSpace\<close>. Removing one rune takes at least one byte, so \<open>length s\<close> rounds
  reach the first byte that starts no white space.
\<close>

definition spaceEncodings :: "string list" where
  "spaceEncodings =
     [[CHR 0x09], [CHR 0x0A], [CHR 0x0B], [CHR 0x0C], [CHR 0x0D], [CHR 0x20],
      [CHR 0xC2, CHR 0x85], [CHR 0xC2, CHR 0xA0], [CHR 0xE1, CHR 0x9A, CHR 0x80],
      [CHR 0xE2, CHR 0x80, CHR 0x80], [CHR 0xE2, CHR 0x80, CHR 0x81],
      [CHR 0xE2, CHR 0x80, CHR 0x82], [CHR 0xE2, CHR 0x80, CHR 0x83],
      [CHR 0xE2, CHR 0x80, CHR 0x84], [CHR 0xE2, CHR 0x80, CHR 0x85],
      [CHR 0xE2, CHR 0x80, CHR 0x86], [CHR 0xE2, CHR 0x80, CHR 0x87],
      [CHR 0xE2, CHR 0x80, CHR 0x88], [CHR 0xE2, CHR 0x80, CHR 0x89],
      [CHR 0xE2, CHR 0x80, CHR 0x8A], [CHR 0xE2, CHR 0x80, CHR 0xA8],
      [CHR 0xE2, CHR 0x80, CHR 0xA9], [CHR 0xE2, CHR 0x80, CHR 0xAF],
      [CHR 0xE2, CHR 0x81, CHR 0x9F], [CHR 0xE3, CHR 0x80, CHR 0x80]]"

definition stripOne :: "string list \<Rightarrow> string \<Rightarrow> string option" where
  "stripOne encs s =
     (case filter (\<lambda>e. take (length e) s = e) encs of
        [] \<Rightarrow> None
      | e # _ \<Rightarrow> Some (drop (length e) s))"

fun stripAll :: "nat \<Rightarrow> string list \<Rightarrow> string \<Rightarrow> string" where
  "stripAll 0 encs s = s"
| "stripAll (Suc n) encs s = (case stripOne encs s of None \<Rightarrow> s | Some s' \<Rightarrow> stripAll n encs s')"

definition bytesTrimSpace :: "string \<Rightarrow> string" where
  "bytesTrimSpace s =
     (let l = stripAll (length s) spaceEncodings s
      in rev (stripAll (length l) (map rev spaceEncodings) (rev l)))"

definition HasPrefix :: "string \<Rightarrow> string \<Rightarrow> bool" where
  "HasPrefix s p = (take (length p) s = p)"

text \<open>\<open>strconv.Atoi\<close>: an optional sign and decimal digits, within 64 bits.\<close>

definition Atoi :: "string \<Rightarrow> int option" where
  "Atoi s =
     (let neg = (s \<noteq> [] \<and> hd s = CHR ''-'');
          ds = (if s \<noteq> [] \<and> (hd s = CHR ''-'' \<or> hd s = CHR ''+'') then tl s else s)
      in if ds = [] \<or> \<not> list_all isDigit ds then None
         else
           let v = foldl (\<lambda>a c. 10 * a + (int (of_char c) - 48)) 0 ds;
               n = (if neg then - v else v)
           in if n > 2 ^ 63 - 1 \<or> n < - (2 ^ 63) then None else Some n)"

text \<open>
  \<open>readJSONLineMessage\<close>: \<open>ReadBytes('\n')\<close> gathers the line in \<open>acc\<close>; a blank line is
  skipped, and the end of the input after the last line is \<open>io.EOF\<close>. The result is the
  trimmed line and the unread input.
\<close>

fun readJSONLineMessage :: "string \<Rightarrow> string \<Rightarrow> readError + string \<times> string" where
  "readJSONLineMessage acc [] =
     (let line = bytesTrimSpace acc in if line = [] then Inl EOF else Inr (line, []))"
| "readJSONLineMessage acc (c # cs) =
     (if c = CHR 0x0A then
        (let line = bytesTrimSpace (acc @ [c])
         in if line = [] then readJSONLineMessage [] cs else Inr (line, cs))
      else readJSONLineMessage (acc @ [c]) cs)"

text \<open>The header loop of \<open>readFramedMessage\<close>: \<open>ReadString('\n')\<close> gathers the line in
  \<open>acc\<close>; the result is \<open>contentLength\<close> and the unread input after the empty line.\<close>

definition splitColon :: "string \<Rightarrow> (string \<times> string) option" where
  \<comment> \<open>\<open>strings.SplitN(line, ":", 2)\<close> when it has two parts\<close>
  "splitColon line =
     (if CHR '':'' \<in> set line
      then Some (takeWhile (\<lambda>c. c \<noteq> CHR '':'') line, tl (dropWhile (\<lambda>c. c \<noteq> CHR '':'') line))
      else None)"

fun readHeaders :: "int \<Rightarrow> string \<Rightarrow> string \<Rightarrow> readError + int \<times> string" where
  "readHeaders contentLength acc [] = Inl EOF"
| "readHeaders contentLength acc (c # cs) =
     (if c \<noteq> CHR 0x0A then readHeaders contentLength (acc @ [c]) cs
      else
        let line = rev (dropWhile (\<lambda>b. b = CHR 0x0D \<or> b = CHR 0x0A) (rev (acc @ [c])))
        in if line = [] then Inr (contentLength, cs)
           else
             (case splitColon line of
                None \<Rightarrow> readHeaders contentLength [] cs
              | Some (name, val) \<Rightarrow>
                  if map asciiFold (bytesTrimSpace name) = map asciiFold ''Content-Length'' then
                    (case Atoi (bytesTrimSpace val) of
                       None \<Rightarrow> Inl InvalidContentLength
                     | Some n \<Rightarrow> readHeaders n [] cs)
                  else readHeaders contentLength [] cs))"

definition readFramedMessage :: "string \<Rightarrow> readError + string \<times> string" where
  "readFramedMessage inp =
     (case readHeaders 0 [] inp of
        Inl e \<Rightarrow> Inl e
      | Inr (contentLength, rest) \<Rightarrow>
          if contentLength \<le> 0 then Inl MissingContentLength
          else if nat contentLength \<le> length rest
            then Inr (take (nat contentLength) rest, drop (nat contentLength) rest)
          else if rest = [] then Inl EOF
          else Inl ErrUnexpectedEOF)"

definition detectWireMode :: "string \<Rightarrow> readError + wireMode \<times> string" where
  \<comment> \<open>the mode, and the input after the white-space bytes it consumed\<close>
  "detectWireMode inp =
     (let rest = dropWhile isSpace inp
      in if rest = [] then Inl EOF
         else if HasPrefix (map asciiFold (take 16 rest)) ''content-length:''
           then Inr (wireModeFramed, rest)
         else Inr (wireModeJSONLine, rest))"

definition readMessage :: "string \<Rightarrow> readError + string \<times> wireMode \<times> string" where
  "readMessage inp =
     (case detectWireMode inp of
        Inl e \<Rightarrow> Inl e
      | Inr (mode, rest) \<Rightarrow>
          if mode = wireModeJSONLine then
            (case readJSONLineMessage [] rest of
               Inl e \<Rightarrow> Inl e
             | Inr (payload, rest') \<Rightarrow> Inr (payload, wireModeJSONLine, rest'))
          else
            (case readFramedMessage rest of
               Inl e \<Rightarrow> Inl e
             | Inr (payload, rest') \<Rightarrow> Inr (payload, wireModeFramed, rest')))"

definition writeFramedMessage :: "'s env \<Rightarrow> response \<Rightarrow> string" where
  "writeFramedMessage env msg =
     (let payload = marshalResponse env msg
      in ''Content-Length: '' @ decimal (length payload) @ [CHR 0x0D, CHR 0x0A, CHR 0x0D, CHR 0x0A]
         @ payload)"

definition writeMessage :: "'s env \<Rightarrow> response \<Rightarrow> wireMode \<Rightarrow> string" where
  "writeMessage env msg mode =
     (if mode = wireModeJSONLine then marshalResponse env msg @ [CHR 0x0A]
      else writeFramedMessage env msg)"

text \<open>
  \<open>Serve\<close> on the whole input stream: the bytes written, the server afterwards and the
  error returned (\<open>None\<close> for \<open>nil\<close>). The context is never cancelled and the writer never
  fails.
\<close>

function Serve :: "'s env \<Rightarrow> 's Server \<Rightarrow> string \<Rightarrow> string \<times> 's Server \<times> readError option" where
  "Serve env srv inp =
     (case readMessage inp of
        Inl e \<Rightarrow> ([], srv, if e = EOF then None else Some e)
      | Inr (payload, mode, rest) \<Rightarrow>
          (case unmarshalRequest env payload of
             Inl msg \<Rightarrow>
               (let srv1 = recordRequest srv
                      \<lparr>req_JSONRPC = [], req_ID = None, req_Method = ''parse_error'', req_Params = None\<rparr>
                      \<lparr>resp_JSONRPC = [], resp_ID = ANil, resp_Result = ANil,
                       resp_Error = Some \<lparr>Code = - 32700, Message = ''parse error'', Data = AString msg\<rparr>\<rparr>;
                    resp = errorResponse ANil (- 32700) ''parse error'' (AString msg)
                in case Serve env srv1 rest of
                     (out, srv', e) \<Rightarrow> (writeFramedMessage env resp @ out, srv', e))
           | Inr req \<Rightarrow>
               (case handle env srv req of
                  (resp, shouldRespond, srv1) \<Rightarrow>
                    (let srv2 = recordRequest srv1 req resp
                     in if \<not> shouldRespond then Serve env srv2 rest
                        else case Serve env srv2 rest of
                               (out, srv', e) \<Rightarrow> (writeMessage env resp mode @ out, srv', e)))))"
  by pat_completeness auto
text \<open>The messages \<open>readMessage\<close> yields from an input, one after the other, until it
  fails: what the loop of \<open>Serve\<close> handles.\<close>

function messages :: "string \<Rightarrow> (string \<times> wireMode) list" where
  "messages inp =
     (case readMessage inp of
        Inl e \<Rightarrow> []
      | Inr (payload, mode, rest) \<Rightarrow> (payload, mode) # messages rest)"
  by pat_completeness auto

lemma readJSONLineMessage_rest:
  "readJSONLineMessage acc inp = Inr (p, r) \<Longrightarrow>
     length r \<le> length inp \<and> (inp \<noteq> [] \<longrightarrow> length r < length inp)"
proof (induction inp arbitrary: acc)
  case Nil
  then show ?case by (simp add: Let_def split: if_splits)
next
  case (Cons c cs)
  show ?case
  proof (cases "c = CHR 0x0A")
    case True
    show ?thesis
    proof (cases "bytesTrimSpace (acc @ [c]) = []")
      case blank: True
      with True Cons.prems have "readJSONLineMessage [] cs = Inr (p, r)" by (simp add: Let_def)
      from Cons.IH [OF this] show ?thesis by simp
    next
      case False
      with True Cons.prems show ?thesis by (simp add: Let_def)
    qed
  next
    case False
    with Cons.prems have "readJSONLineMessage (acc @ [c]) cs = Inr (p, r)" by simp
    from Cons.IH [OF this] show ?thesis by simp
  qed
qed

lemma readHeaders_rest:
  "readHeaders n acc inp = Inr (m, r) \<Longrightarrow> length r < length inp"
proof (induction inp arbitrary: n acc)
  case Nil
  then show ?case by simp
next
  case (Cons c cs)
  have step: "length r < length cs \<Longrightarrow> length r < length (c # cs)" by simp
  show ?case
  proof (cases "c = CHR 0x0A")
    case False
    with Cons.prems have "readHeaders n (acc @ [c]) cs = Inr (m, r)" by simp
    from Cons.IH [OF this] show ?thesis by simp
  next
    case True
    from Cons.prems True show ?thesis
      by (auto simp: Let_def split: if_splits option.splits prod.splits dest!: Cons.IH)
  qed
qed

lemma readFramedMessage_rest:
  "readFramedMessage inp = Inr (p, r) \<Longrightarrow> length r < length inp"
  by (auto simp: readFramedMessage_def split: sum.splits prod.splits if_splits
      dest!: readHeaders_rest)

lemma readMessage_rest:
  "readMessage inp = Inr (p, mode, r) \<Longrightarrow> length r < length inp"
proof -
  assume a: "readMessage inp = Inr (p, mode, r)"
  define rest where "rest = dropWhile isSpace inp"
  have le: "length rest \<le> length inp" unfolding rest_def by (simp add: length_dropWhile_le)
  show ?thesis
  proof (cases "rest = []")
    case True
    with a show ?thesis by (simp add: readMessage_def detectWireMode_def rest_def Let_def)
  next
    case False
    show ?thesis
    proof (cases "HasPrefix (map asciiFold (take 16 rest)) ''content-length:''")
      case framed: True
      with a False have "readFramedMessage rest = Inr (p, r)"
        by (auto simp: readMessage_def detectWireMode_def rest_def [symmetric] Let_def
            split: sum.splits prod.splits)
      from readFramedMessage_rest [OF this] le show ?thesis by simp
    next
      case line: False
      with a False have "readJSONLineMessage [] rest = Inr (p, r)"
        by (auto simp: readMessage_def detectWireMode_def rest_def [symmetric] Let_def
            split: sum.splits prod.splits)
      from readJSONLineMessage_rest [OF this] False le show ?thesis by simp
    qed
  qed
qed

termination Serve
  by (relation "measure (\<lambda>(env, srv, inp). length inp)") (auto dest: readMessage_rest)

termination messages
  by (relation "measure length") (auto dest: readMessage_rest)

section \<open>Auxiliary notions for the statements\<close>

subsection \<open>Context packs\<close>

text \<open>The entries of a ranked list that pass the two skips of the loop (empty display
  text, normalized text already seen), in rank order: what the pack would hold under an
  unlimited budget.\<close>

fun packEntries :: "SearchResult list \<Rightarrow> string set \<Rightarrow> SearchResult list" where
  "packEntries [] seen = []"
| "packEntries (r # rs) seen =
     (if displayText r = [] then packEntries rs seen
      else if normalize_text (displayText r) \<in> seen then packEntries rs seen
      else r # packEntries rs (insert (normalize_text (displayText r)) seen))"

text \<open>How many costs of a list fit, front to back, until the first that does not.\<close>

fun fitCount :: "int \<Rightarrow> int \<Rightarrow> int list \<Rightarrow> nat" where
  "fitCount budget tokens [] = 0"
| "fitCount budget tokens (c # cs) =
     (if tokens + c > budget then 0 else Suc (fitCount budget (tokens + c) cs))"

definition contextPackSearch :: "Service \<Rightarrow> ContextPackInput \<Rightarrow> SearchInput" where
  "contextPackSearch svc inp =
     (let k0 = (if cp_K inp \<le> 0 then MaxContextPackItems (cfg svc) else cp_K inp);
          k = (if k0 > 50 then 50 else k0)
      in \<lparr>si_Namespace = cp_Namespace inp, si_Query = cp_Query inp,
          si_Scope = cp_Scope inp, si_K = k, si_IncludeMetadata = False\<rparr>)"


subsection \<open>A small store, used to run the operations on concrete inputs\<close>

definition exNow :: time where
  "exNow = 1771322400000000000"

definition exService :: Service where
  "exService = \<lparr>cfg = \<lparr>NamespacePattern = ''^[a-zA-Z0-9_.-]+(/[a-zA-Z0-9_.-]+){1,7}$'',
       DefaultShortTTLHours = 48, MaxContextPackItems = 8, DefaultSearchK = 10\<rparr>,
     namespaceExpr = (\<lambda>s. CHR ''/'' \<in> set s)\<rparr>"

definition exEngine :: fts_engine where
  "exEngine = (\<lambda>q. Inr [])"

definition exRow :: "string \<Rightarrow> string \<Rightarrow> MemoryRecord" where
  "exRow i summary = \<lparr>ID = i, Namespace = ''org/repo/task'', Scope = ''long'',
     Content = ''note'', Summary = summary, Importance = 5, SourceAgent = [],
     Metadata = Some [], CreatedAt = exNow, LastAccessedAt = exNow, ExpiresAt = None,
     PromotedAt = None\<rparr>"

definition exStore :: SQLiteStore where
  "exStore = \<lparr>rows = [exRow ''a'' ''first long summary entry'',
                      exRow ''b'' ''second long summary entry''],
     ftsEnabled = False, dbError = None\<rparr>"

definition exPackInput :: ContextPackInput where
  "exPackInput = \<lparr>cp_Namespace = ''org/repo/task'', cp_Query = ''summary'',
     cp_TokenBudget = 10, cp_Scope = [], cp_K = 10\<rparr>"



definition exWriteInput :: WriteInput where
  "exWriteInput = \<lparr>wi_Namespace = ''org/repo/task'', wi_Scope = [], wi_Content = ''db migration completed'',
     wi_Summary = [], wi_Importance = 0, wi_SourceAgent = [], wi_TTLSeconds = 0,
     wi_Metadata = None\<rparr>"

section \<open>Evaluation\<close>

text \<open>The definitions that running the string functions on a literal unfolds.\<close>

lemmas string_defs =
  isSpace_def isDigit_def isLetter_def toLower_def asciiUpper_def asciiLower_def latin1Upper_def
  latin1Lower_def ToLower_def TrimSpace_def Fields_def asciiFold_def digitChar_def

section \<open>The context pack stays within its token budget\<close>

lemma estimateTokens_eq: "estimateTokens s = max 1 \<lceil>real (length s) / 4\<rceil>"
  by (simp add: estimateTokens_def Let_def max_def)

lemma packLoop_eq:
  "packLoop budget rs seen lines ids tokens =
     (let es = packEntries rs seen;
          n = fitCount budget tokens (map (\<lambda>r. estimateTokens (packLine r)) es)
      in (lines @ map packLine (take n es),
          ids @ map (\<lambda>r. ID (Record r)) (take n es),
          tokens + sum_list (map (\<lambda>r. estimateTokens (packLine r)) (take n es))))"
proof (induction rs arbitrary: seen lines ids tokens)
  case Nil
  show ?case by simp
next
  case (Cons r rs)
  show ?case
    by (simp add: Let_def Cons.IH add.assoc)
qed

lemma fitCount_le: "fitCount budget tokens cs \<le> length cs"
  by (induction cs arbitrary: tokens) auto

lemma fitCount_sum:
  "tokens \<le> budget \<Longrightarrow> tokens + sum_list (take (fitCount budget tokens cs) cs) \<le> budget"
proof (induction cs arbitrary: tokens)
  case Nil
  then show ?case by simp
next
  case (Cons c cs)
  show ?case
  proof (cases "tokens + c > budget")
    case True
    with Cons.prems show ?thesis by simp
  next
    case False
    then have "tokens + c \<le> budget" by simp
    from Cons.IH [OF this] False show ?thesis by (simp add: add.assoc)
  qed
qed

lemma fitCount_stop:
  "fitCount budget tokens cs < length cs \<Longrightarrow>
     tokens + sum_list (take (fitCount budget tokens cs) cs) + cs ! fitCount budget tokens cs > budget"
proof (induction cs arbitrary: tokens)
  case Nil
  then show ?case by simp
next
  case (Cons c cs)
  show ?case
  proof (cases "tokens + c > budget")
    case True
    then show ?thesis by simp
  next
    case False
    with Cons.prems have "fitCount budget (tokens + c) cs < length cs" by simp
    from Cons.IH [OF this] False show ?thesis by (simp add: add.assoc)
  qed
qed

text \<open>
  Claim C1. A context pack that \<open>ContextPack\<close> returns holds the first \<open>n\<close> lines of the
  ranked, deduplicated results; its \<open>EstimatedTokens\<close> is the sum of their costs, a line of
  \<open>c\<close> characters costing \<open>max 1 \<lceil>c / 4\<rceil>\<close>; the sum is at most the budget, which is 512 when
  the requested budget is not positive; and when a line is left out, the first one left
  out is the one whose cost no longer fits: nothing after it is considered.
\<close>

theorem ContextPack_token_budget:
  assumes "ContextPack svc eng st now inp = Inr pack"
  shows "\<exists>results. Search svc eng st now (contextPackSearch svc inp) = Inr results \<and>
     (let lines = map packLine (packEntries results {});
          cost = (\<lambda>l. max 1 \<lceil>real (length l) / 4\<rceil>);
          budget = (if cp_TokenBudget inp \<le> 0 then 512 else cp_TokenBudget inp);
          n = length (MemoryIDs pack)
      in n \<le> length lines \<and>
         Text pack = Join (take n lines) [CHR 0x0A] \<and>
         EstimatedTokens pack = sum_list (map cost (take n lines)) \<and>
         EstimatedTokens pack \<le> budget \<and>
         (n < length lines \<longrightarrow> EstimatedTokens pack + cost (lines ! n) > budget))"
proof -
  define budget where "budget = (if cp_TokenBudget inp \<le> 0 then 512 else cp_TokenBudget inp)"
  from assms obtain results where
    s: "Search svc eng st now (contextPackSearch svc inp) = Inr results"
    by (auto simp: ContextPack_def contextPackSearch_def Let_def split: sum.splits)
  define es where "es = packEntries results {}"
  define costs where "costs = map (\<lambda>r. estimateTokens (packLine r)) es"
  define n where "n = fitCount budget 0 costs"
  have loop: "packLoop budget results {} [] [] 0 =
      (map packLine (take n es), map (\<lambda>r. ID (Record r)) (take n es), sum_list (take n costs))"
    by (simp add: packLoop_eq Let_def es_def costs_def n_def take_map)
  from assms s have pack: "pack = \<lparr>Text = Join (map packLine (take n es)) [CHR 0x0A],
      EstimatedTokens = sum_list (take n costs),
      MemoryIDs = map (\<lambda>r. ID (Record r)) (take n es)\<rparr>"
    using loop
    by (auto simp: ContextPack_def contextPackSearch_def Let_def effectiveBudget_def budget_def)
  have nle: "n \<le> length es"
    using fitCount_le [of budget 0 costs] by (simp add: n_def costs_def)
  have len: "length (MemoryIDs pack) = n" using nle by (simp add: pack)
  have b0: "(0::int) \<le> budget" by (simp add: budget_def)
  have within: "sum_list (take n costs) \<le> budget"
    using fitCount_sum [OF b0, of costs] by (simp add: n_def)
  have stop: "n < length es \<Longrightarrow> sum_list (take n costs) + costs ! n > budget"
    using fitCount_stop [of budget 0 costs] by (simp add: n_def costs_def)
  have costs_eq: "take n costs = map (\<lambda>l. max 1 \<lceil>real (length l) / 4\<rceil>) (take n (map packLine es))"
    by (simp add: costs_def take_map estimateTokens_eq o_def)
  have nth_eq: "n < length es \<Longrightarrow> costs ! n = max 1 \<lceil>real (length (map packLine es ! n)) / 4\<rceil>"
    by (simp add: costs_def estimateTokens_eq)
  show ?thesis
    using s len nle within stop costs_eq nth_eq
    by (auto simp: Let_def es_def [symmetric] budget_def [symmetric] pack take_map)
qed

lemma ex_tokenize: "tokenizeQueryTerms ''summary'' = [''summary'']"
  by (simp add: tokenizeQueryTerms_def string_defs tokenFlush_def)

lemma ex_like_a: "sqlLike ''%summary%'' ''first long summary entry''"
  by (simp add: string_defs)

lemma ex_like_b: "sqlLike ''%summary%'' ''second long summary entry''"
  by (simp add: string_defs)

lemma ex_candidates: "SearchCandidates exEngine exStore ''org/repo/task'' ''summary'' [] 30 exNow =
  Inr [\<lparr>cRecord = exRow ''a'' ''first long summary entry'', cLexicalScore = 0.4\<rparr>,
       \<lparr>cRecord = exRow ''b'' ''second long summary entry'', cLexicalScore = 0.4\<rparr>]"
  by (simp add: SearchCandidates_def ex_tokenize Let_def string_defs exStore_def searchLIKE_def
      likeWhere_def likeEither_def ex_like_a ex_like_b expiresAfter_def exRow_def sqlLimit_def)

lemma ex_search: "Search exService exEngine exStore exNow (contextPackSearch exService exPackInput) =
  Inr [\<lparr>Record = (exRow ''a'' ''first long summary entry'')\<lparr>Metadata := None\<rparr>, Score = 0.64,
         LexicalScore = 0.4, RecencyScore = 1, ImportanceScore = 1\<rparr>,
       \<lparr>Record = (exRow ''b'' ''second long summary entry'')\<lparr>Metadata := None\<rparr>, Score = 0.64,
         LexicalScore = 0.4, RecencyScore = 1, ImportanceScore = 1\<rparr>]"
  by (simp add: Search_def contextPackSearch_def exPackInput_def exService_def validateNamespace_def
      string_defs effectiveK_def wrap64_def ex_candidates Let_def
      scoreCandidate_def recencyScore_def Sub_def stripMetadata_def exRow_def)

lemma ex_pack: "ContextPack exService exEngine exStore exNow exPackInput =
  Inr \<lparr>Text = ''- [a] first long summary entry'', EstimatedTokens = 8, MemoryIDs = [''a'']\<rparr>"
  using ex_search
  by (simp add: ContextPack_def contextPackSearch_def exPackInput_def Let_def effectiveBudget_def
      exService_def displayText_def exRow_def string_defs normalize_text_def truncate_str_def packLine_def estimateTokens_def)

lemma ex_packEntries:
  "packEntries
     [\<lparr>Record = (exRow ''a'' ''first long summary entry'')\<lparr>Metadata := None\<rparr>, Score = 0.64,
        LexicalScore = 0.4, RecencyScore = 1, ImportanceScore = 1\<rparr>,
      \<lparr>Record = (exRow ''b'' ''second long summary entry'')\<lparr>Metadata := None\<rparr>, Score = 0.64,
        LexicalScore = 0.4, RecencyScore = 1, ImportanceScore = 1\<rparr>] {} =
     [\<lparr>Record = (exRow ''a'' ''first long summary entry'')\<lparr>Metadata := None\<rparr>, Score = 0.64,
        LexicalScore = 0.4, RecencyScore = 1, ImportanceScore = 1\<rparr>,
      \<lparr>Record = (exRow ''b'' ''second long summary entry'')\<lparr>Metadata := None\<rparr>, Score = 0.64,
        LexicalScore = 0.4, RecencyScore = 1, ImportanceScore = 1\<rparr>]"
  by (simp add: displayText_def exRow_def string_defs normalize_text_def truncate_str_def Let_def)

theorem ContextPack_token_budget_witness:
  "ContextPack exService exEngine exStore exNow exPackInput =
     Inr \<lparr>Text = ''- [a] first long summary entry'', EstimatedTokens = 8, MemoryIDs = [''a'']\<rparr> \<and>
   (\<exists>results. Search exService exEngine exStore exNow (contextPackSearch exService exPackInput) =
        Inr results \<and>
      1 < length (packEntries results {}) \<and>
      8 + max 1 \<lceil>real (length (packLine (packEntries results {} ! 1))) / 4\<rceil> > (10::int))"
proof -
  from ContextPack_token_budget [OF ex_pack]
  obtain results where
    r: "Search exService exEngine exStore exNow (contextPackSearch exService exPackInput) = Inr results"
    and b: "1 < length (map packLine (packEntries results {})) \<longrightarrow>
      8 + max 1 \<lceil>real (length (map packLine (packEntries results {}) ! 1)) / 4\<rceil> > (10::int)"
    by (auto simp: Let_def exPackInput_def)
  let ?rs = "[\<lparr>Record = (exRow ''a'' ''first long summary entry'')\<lparr>Metadata := None\<rparr>, Score = 0.64,
        LexicalScore = 0.4, RecencyScore = 1, ImportanceScore = 1\<rparr>,
      \<lparr>Record = (exRow ''b'' ''second long summary entry'')\<lparr>Metadata := None\<rparr>, Score = 0.64,
        LexicalScore = 0.4, RecencyScore = 1, ImportanceScore = 1\<rparr>]"
  from r ex_search have "results = ?rs" by simp
  then have "packEntries results {} = ?rs" by (simp only: ex_packEntries)
  then have "1 < length (packEntries results {})" by simp
  with r b ex_pack show ?thesis by auto
qed

section \<open>The context pack holds each normalized text once\<close>







section \<open>What a write returns\<close>

text \<open>
  Claim C4. The entry a successful \<open>Write\<close> returns has scope \<open>long\<close> when the input's scope,
  lower-cased and trimmed, is \<open>long\<close>, and scope \<open>short\<close> otherwise; its \<open>ExpiresAt\<close> is set
  exactly when its scope is \<open>short\<close>; and its importance is the input's when that lies in
  1..5 and 3 otherwise (an unset importance is 0).
\<close>

theorem Write_scope_expiry_importance:
  assumes "Write svc st now uuid inp = Inr (rec, st')"
  shows "Scope rec = (if TrimSpace (ToLower (wi_Scope inp)) = ''long'' then ''long'' else ''short'') \<and>
         (ExpiresAt rec \<noteq> None \<longleftrightarrow> Scope rec = ''short'') \<and>
         Importance rec =
           (if 1 \<le> wi_Importance inp \<and> wi_Importance inp \<le> 5 then wi_Importance inp else 3)"
proof -
  define scope where "scope = (if TrimSpace (ToLower (wi_Scope inp)) = [] then ''short''
                               else TrimSpace (ToLower (wi_Scope inp)))"
  from assms have valid: "scope = ''short'' \<or> scope = ''long''"
    by (auto simp: Write_def Let_def scope_def split: option.splits if_splits)
  from assms valid obtain e where
    ins: "InsertMemory st
        \<lparr>ID = uuid, Namespace = wi_Namespace inp, Scope = scope, Content = wi_Content inp,
         Summary = (if TrimSpace (wi_Summary inp) = [] then autoSummary (wi_Content inp)
                    else TrimSpace (wi_Summary inp)),
         Importance = (if wi_Importance inp < 1 \<or> wi_Importance inp > 5 then 3
                       else wi_Importance inp),
         SourceAgent = wi_SourceAgent inp, Metadata = wi_Metadata inp, CreatedAt = now,
         LastAccessedAt = now, ExpiresAt = e, PromotedAt = None\<rparr> = Inr (rec, st')"
    and exp: "e \<noteq> None \<longleftrightarrow> scope = ''short''"
    by (auto simp: Write_def Let_def scope_def split: option.splits if_splits)
  from ins have rec: "Scope rec = scope" "ExpiresAt rec = e"
    "Importance rec = (if wi_Importance inp < 1 \<or> wi_Importance inp > 5 then 3
                       else wi_Importance inp)"
    by (auto simp: InsertMemory_def split: option.splits if_splits)
  from valid have "scope = (if TrimSpace (ToLower (wi_Scope inp)) = ''long'' then ''long'' else ''short'')"
    by (auto simp: scope_def split: if_splits)
  with rec exp show ?thesis by auto
qed

lemma ex_write:
  "Write exService exStore exNow ''m-1'' exWriteInput =
     Inr (\<lparr>ID = ''m-1'', Namespace = ''org/repo/task'', Scope = ''short'',
           Content = ''db migration completed'', Summary = ''db migration completed'',
           Importance = 3, SourceAgent = [], Metadata = None, CreatedAt = exNow,
           LastAccessedAt = exNow, ExpiresAt = Some (exNow + 172800000000000),
           PromotedAt = None\<rparr>,
          exStore\<lparr>rows := rows exStore @
            [\<lparr>ID = ''m-1'', Namespace = ''org/repo/task'', Scope = ''short'',
              Content = ''db migration completed'', Summary = ''db migration completed'',
              Importance = 3, SourceAgent = [], Metadata = Some [], CreatedAt = exNow,
              LastAccessedAt = exNow, ExpiresAt = Some (exNow + 172800000000000),
              PromotedAt = None\<rparr>]\<rparr>)"
  by (simp add: Write_def exWriteInput_def exService_def validateNamespace_def string_defs
      Let_def autoSummary_def truncate_str_def wrap64_def Add_def InsertMemory_def exStore_def
      exRow_def)

theorem Write_scope_expiry_importance_witness:
  "\<exists>rec st'. Write exService exStore exNow ''m-1'' exWriteInput = Inr (rec, st') \<and>
     Scope rec = ''short'' \<and> ExpiresAt rec = Some (exNow + 172800000000000) \<and> Importance rec = 3"
proof -
  let ?rec = "\<lparr>ID = ''m-1'', Namespace = ''org/repo/task'', Scope = ''short'',
           Content = ''db migration completed'', Summary = ''db migration completed'',
           Importance = 3, SourceAgent = [], Metadata = None, CreatedAt = exNow,
           LastAccessedAt = exNow, ExpiresAt = Some (exNow + 172800000000000),
           PromotedAt = None\<rparr>"
  from Write_scope_expiry_importance [OF ex_write]
  have "Scope ?rec = ''short'' \<and> Importance ?rec = 3"
    by (simp add: exWriteInput_def string_defs)
  with ex_write show ?thesis by simp
qed

end
